theory Spec2Isabelle
  imports Main "HOL-Library.Sublist" "HOL-Library.Word"
begin

section \<open>JavaScript strings\<close>

text \<open>
  Strings are \<open>char list\<close>; the model covers ASCII text, where one \<open>char\<close> is one
  UTF-16 code unit of the JavaScript string and \<open>length\<close> is \<open>.length\<close>.
\<close>

definition upper_letters :: string where
  "upper_letters = ''ABCDEFGHIJKLMNOPQRSTUVWXYZ''"

definition lower_letters :: string where
  "lower_letters = ''abcdefghijklmnopqrstuvwxyz''"

definition digit_chars :: string where
  "digit_chars = ''0123456789''"

definition lower_char :: "char \<Rightarrow> char" where
  "lower_char c = (case map_of (zip upper_letters lower_letters) c of Some d \<Rightarrow> d | None \<Rightarrow> c)"

definition toLowerCase :: "string \<Rightarrow> string" where
  "toLowerCase s = map lower_char s"

text \<open>The ASCII part of the regular expression class \<open>\s\<close>: TAB, LF, VT, FF, CR, space.\<close>

definition is_space :: "char \<Rightarrow> bool" where
  "is_space c = (c \<in> set [CHR 0x09, CHR 0x0A, CHR 0x0B, CHR 0x0C, CHR 0x0D, CHR 0x20])"



definition trim :: "string \<Rightarrow> string" where
  "trim s = rev (dropWhile is_space (rev (dropWhile is_space s)))"

text \<open>\<open>s.includes(p)\<close>: \<open>p\<close> occurs in \<open>s\<close> as a contiguous substring.\<close>

primrec str_includes :: "string \<Rightarrow> string \<Rightarrow> bool" where
  "str_includes [] p = (p = [])"
| "str_includes (c # cs) p = (prefix p (c # cs) \<or> str_includes cs p)"

text \<open>
  \<open>s.split(/\s+/)\<close>: the pieces between maximal runs of whitespace; a leading or
  trailing run leaves an empty piece, and the empty string gives one empty piece.
\<close>

primrec split_go :: "string \<Rightarrow> bool \<Rightarrow> string \<Rightarrow> string list" where
  "split_go cur insp [] = [rev cur]"
| "split_go cur insp (c # cs) =
     (if is_space c
      then (if insp then split_go cur True cs else rev cur # split_go [] True cs)
      else split_go (c # cur) False cs)"

definition split_ws :: "string \<Rightarrow> string list" where
  "split_ws s = split_go [] False s"

text \<open>\<open>x || d\<close> for a string-or-absent \<open>x\<close>: the empty string is falsy as well.\<close>

definition or_else :: "string option \<Rightarrow> string \<Rightarrow> string" where
  "or_else x d = (case x of None \<Rightarrow> d | Some s \<Rightarrow> if s = [] then d else s)"

section \<open>Data model\<close>

record link_content =
  lc_name :: "string option"
  lc_title :: "string option"
  lc_description :: "string option"

record link =
  l_expanded :: string
  l_content :: "link_content option"

record tweet_context =
  x_author :: string
  x_text :: string

text \<open>
  A bookmark. An absent \<open>links\<close> or \<open>tags\<close> array is the empty list, an absent
  \<open>text\<close> or \<open>date\<close> the empty string: the code reads them through \<open>?.\<close> and
  \<open>||\<close>, which treat both alike.
\<close>

record bookmark =
  b_id :: string
  b_author :: string
  b_text :: string
  b_date :: string
  b_tweetUrl :: string
  b_links :: "link list"
  b_tags :: "string list"
  b_replyContext :: "tweet_context option"
  b_quoteContext :: "tweet_context option"

record reasoning =
  r_title :: string
  r_summary :: string
  r_tags :: "string list"
  r_category :: string

text \<open>
  A category rule. The action is the string the configuration gives (empty when absent);
  the registry is the \<open>categories\<close> object as the list of its entries in enumeration
  order.
\<close>

record category_rule =
  c_key :: "string option"
  c_action :: string
  c_folder :: "string option"
  c_match :: "string list"
  c_template :: "string option"
  c_description :: string

type_synonym registry = "(string \<times> category_rule) list"

section \<open>Category resolver\<close>

text \<open>The literal \<open>categoryMap\<close> of \<open>_matchCategory\<close>, entry by entry.\<close>

definition categoryMap :: "(string \<times> string) list" where
  "categoryMap = [
    (''github'', ''github''), (''repo'', ''github''), (''repository'', ''github''), (''code'', ''github''), (''source'', ''github''),
    (''article'', ''article''), (''blog'', ''article''), (''post'', ''article''), (''guide'', ''article''), (''tutorial'', ''article''), (''docs'', ''article''), (''documentation'', ''article''),
    (''video'', ''youtube''), (''youtube'', ''youtube''), (''screencast'', ''youtube''), (''talk'', ''youtube''), (''presentation'', ''youtube''),
    (''podcast'', ''podcast''), (''audio'', ''podcast''), (''episode'', ''podcast''), (''interview'', ''podcast''),
    (''tool'', ''github''), (''utility'', ''github''), (''library'', ''github''), (''framework'', ''github''), (''app'', ''github''), (''service'', ''github''), (''api'', ''github''), (''package'', ''github''), (''module'', ''github''),
    (''general'', ''tweet''), (''misc'', ''tweet''), (''note'', ''tweet''), (''announcement'', ''tweet''), (''news'', ''tweet''), (''thought'', ''tweet''), (''idea'', ''tweet''),
    (''resource'', ''article''), (''resources'', ''article''), (''list'', ''article''), (''collection'', ''article''),
    (''deal'', ''article''), (''deals'', ''article''), (''offer'', ''article''), (''offers'', ''article''), (''discount'', ''article''), (''free'', ''article''),
    (''stack'', ''github''), (''techstack'', ''github''), (''tech'', ''github''), (''toolset'', ''github''), (''setup'', ''github''),
    (''course'', ''article''), (''courses'', ''article''), (''learning'', ''article''), (''learn'', ''article''), (''education'', ''article''),
    (''student'', ''article''), (''students'', ''article''), (''developer'', ''article''), (''dev'', ''article''), (''programming'', ''article''),
    (''comprehensive'', ''article''), (''complete'', ''article''), (''ultimate'', ''article''), (''guide'', ''article''),
    (''ai'', ''article''), (''ml'', ''article''), (''llm'', ''article''), (''model'', ''article''), (''claude'', ''article''), (''gemini'', ''article''),
    (''mcp'', ''github''), (''automation'', ''github''), (''blender'', ''github''), (''concept'', ''article''), (''os'', ''github''),
    (''operating'', ''github''), (''system'', ''github''), (''tip'', ''article''), (''tips'', ''article''), (''millionaires'', ''article''),
    (''shipping'', ''github''), (''products'', ''github''), (''scene'', ''github''), (''generation'', ''article''),
    (''benefits'', ''article''), (''benefits'', ''article''), (''storage'', ''github''), (''backend'', ''github''),
    (''guided'', ''article''), (''feature'', ''article''), (''hacking'', ''article''), (''beginners'', ''article''),
    (''layer'', ''github''), (''version'', ''github''), (''v3'', ''github''), (''intelligence'', ''article''),
    (''fundamental'', ''article''), (''advanced'', ''article''), (''concepts'', ''article''), (''automation'', ''github''),
    (''unlimited'', ''github''), (''cloud'', ''github''), (''telegram'', ''github''), (''backend'', ''github''),
    (''message'', ''github''), (''commit'', ''github''), (''message'', ''github''), (''vibe'', ''article''),
    (''chat'', ''article''), (''history'', ''article''), (''conversations'', ''article''), (''ragging'', ''article''), (''rag'', ''article''),
    (''vision'', ''article''), (''personal'', ''article''), (''3d'', ''article''),
    (''y combinator'', ''article''), (''yc'', ''article''), (''combinator'', ''article''), (''student deals'', ''article''),
    (''credits'', ''article''), (''startup'', ''article''), (''funding'', ''article''), (''accelerator'', ''article'')
  ]"

text \<open>
  \<open>categoryMap[w]\<close>. The table is a plain object, so the two all-lowercase property
  names it inherits are found too: \<open>constructor\<close> (the function \<open>Object\<close>) and
  \<open>__proto__\<close> (the prototype object). Both values are truthy and are no category
  key; they are represented by the property name they coerce to when the registry is
  indexed with them. A key written twice in the literal has the same value both times.
\<close>

definition categoryMap_get :: "string \<Rightarrow> string option" where
  "categoryMap_get w =
     (case map_of categoryMap w of
        Some k \<Rightarrow> Some k
      | None \<Rightarrow>
          if w = ''constructor'' then Some ''function Object() { [native code] }''
          else if w = ''__proto__'' then Some ''[object Object]''
          else None)"

definition includes_any :: "string \<Rightarrow> string list \<Rightarrow> bool" where
  "includes_any s ps = list_ex (str_includes s) ps"

definition github_indicators :: "string list" where
  "github_indicators = [''github'', '' repo'', ''npm'', ''mcp'', ''automation'', ''/commit'',
     ''backend'', ''storage'', ''cloud'', ''layer'', ''version'', ''blender'']"

definition video_indicators :: "string list" where
  "video_indicators = [''video'', ''youtube'', ''watch'', ''talk'']"

definition podcast_indicators :: "string list" where
  "podcast_indicators = [''podcast'', ''audio'', ''episode'']"

definition article_indicators :: "string list" where
  "article_indicators = [''article'', ''blog'', ''post'', ''guide'', ''tutorial'', ''course'',
     ''resource'', ''learning'', ''student'', ''developer'', ''free'', ''comprehensive'',
     ''ultimate'', ''deal'', ''tip'', ''feature'', ''hacking'', ''beginners'',
     ''generation'', ''fundamental'', ''advanced'', ''concept'', ''benefits'', ''intelligence'',
     ''vibe'', ''guided'', ''chat'', ''history'', ''conversations'', ''ragging'',
     ''vision'', ''personal'', ''3d'', ''millionaire'']"

definition tool_indicators :: "string list" where
  "tool_indicators = [''library'', ''framework'', ''tool'', '' app'', ''stack'', ''tech'',
     ''products'', ''shipping'', ''operating'', ''system'', ''millionaires'', ''scene'']"

definition topical_indicators :: "string list" where
  "topical_indicators = [''ai'', ''student'', ''deal'', ''credit'', ''combinator'', ''y combinator'',
     ''yc'', ''startup'', ''funding'', ''accelerator'']"

text \<open>The \<open>if\<close>/\<open>else if\<close> chain over the combined text (taken when the label is unknown).\<close>

definition keywordScan :: "string \<Rightarrow> string option" where
  "keywordScan ct =
     (if includes_any ct github_indicators then Some ''github''
      else if includes_any ct video_indicators then Some ''youtube''
      else if includes_any ct podcast_indicators then Some ''podcast''
      else if includes_any ct article_indicators then Some ''article''
      else if includes_any ct tool_indicators then Some ''github''
      else None)"

text \<open>The loop over the words: the first word the table knows decides.\<close>

primrec wordScan :: "string list \<Rightarrow> string option" where
  "wordScan [] = None"
| "wordScan (w # ws) = (case categoryMap_get w of Some k \<Rightarrow> Some k | None \<Rightarrow> wordScan ws)"

definition combinedText :: "bookmark \<Rightarrow> reasoning option \<Rightarrow> string" where
  "combinedText b r =
     toLowerCase (case r of None \<Rightarrow> [] | Some x \<Rightarrow> r_title x) @ '' '' @
     toLowerCase (case r of None \<Rightarrow> [] | Some x \<Rightarrow> r_summary x) @ '' '' @
     toLowerCase (b_text b)"

text \<open>\<open>!matchedKey || matchedKey === 'tweet'\<close>\<close>

definition unset_or_tweet :: "string option \<Rightarrow> bool" where
  "unset_or_tweet k = (k = None \<or> k = Some ''tweet'')"

text \<open>
  The value of \<open>matchedKey\<close> when \<open>_matchCategory\<close> reaches its URL loop: \<open>None\<close>
  is \<open>undefined\<close>.
\<close>

definition matchedKey :: "bookmark \<Rightarrow> reasoning option \<Rightarrow> string option" where
  "matchedKey b r =
     (let aiCategory = trim (toLowerCase (case r of None \<Rightarrow> [] | Some x \<Rightarrow> r_category x));
          ct = combinedText b r;
          k1 = categoryMap_get aiCategory;
          k2 = (if k1 = None then keywordScan ct else k1);
          k3 = (if unset_or_tweet k2
                then (case wordScan (split_ws ct) of Some k \<Rightarrow> Some k | None \<Rightarrow> k2)
                else k2);
          k4 = (if unset_or_tweet k3
                then (if includes_any ct topical_indicators then Some ''article'' else k3)
                else k3)
      in k4)"

text \<open>\<open>_findCategoryByUrl\<close>: the key of the first registry entry with a pattern in the URL.\<close>

definition findCategoryByUrl :: "registry \<Rightarrow> string \<Rightarrow> string option" where
  "findCategoryByUrl cats url =
     map_option fst (find (\<lambda>(k, c). list_ex (\<lambda>p. str_includes url p) (c_match c)) cats)"

text \<open>
  The loop over the links: the first link with a non-empty (truthy) key returns
  \<open>this.categories[key]\<close>; the outer \<open>None\<close> means that the loop ended without
  returning.
\<close>

primrec urlEscape :: "registry \<Rightarrow> link list \<Rightarrow> category_rule option option" where
  "urlEscape cats [] = None"
| "urlEscape cats (l # ls) =
     (case findCategoryByUrl cats (l_expanded l) of
        None \<Rightarrow> urlEscape cats ls
      | Some k \<Rightarrow> if k = [] then urlEscape cats ls else Some (map_of cats k))"

definition fallbackRule :: category_rule where
  "fallbackRule = \<lparr> c_key = Some ''tweet'', c_action = ''capture'', c_folder = None,
     c_match = [], c_template = None, c_description = ''Plain tweets'' \<rparr>"

text \<open>Indexing the registry with \<open>matchedKey\<close>: \<open>undefined\<close> is the property name \<open>undefined\<close>.\<close>

definition key_name :: "string option \<Rightarrow> string" where
  "key_name k = (case k of None \<Rightarrow> ''undefined'' | Some s \<Rightarrow> s)"

text \<open>\<open>_matchCategory\<close>; the result \<open>None\<close> would be a return of \<open>undefined\<close>.\<close>

definition matchCategory :: "registry \<Rightarrow> bookmark \<Rightarrow> reasoning option \<Rightarrow> category_rule option" where
  "matchCategory cats b r =
     (let k = matchedKey b r in
      case (if k = Some ''tweet'' then urlEscape cats (b_links b) else None) of
        Some res \<Rightarrow> res
      | None \<Rightarrow>
          (case map_of cats (key_name k) of
             Some res \<Rightarrow> Some res
           | None \<Rightarrow> Some fallbackRule))"

text \<open>The registry of the test suite (\<open>DEFAULT_CATEGORIES\<close>); its entries carry no \<open>key\<close>.\<close>

definition DEFAULT_CATEGORIES :: registry where
  "DEFAULT_CATEGORIES = [
     (''github'', \<lparr> c_key = None, c_action = ''file'', c_folder = Some ''./knowledge/tools'',
        c_match = [''github.com''], c_template = Some ''tool'', c_description = ''GitHub repositories'' \<rparr>),
     (''article'', \<lparr> c_key = None, c_action = ''file'', c_folder = Some ''./knowledge/articles'',
        c_match = [''medium.com'', ''substack.com''], c_template = Some ''article'', c_description = ''Articles'' \<rparr>),
     (''youtube'', \<lparr> c_key = None, c_action = ''transcribe'', c_folder = Some ''./knowledge/videos'',
        c_match = [''youtube.com'', ''youtu.be''], c_template = Some ''video'', c_description = ''Videos'' \<rparr>),
     (''podcast'', \<lparr> c_key = None, c_action = ''transcribe'', c_folder = Some ''./knowledge/podcasts'',
        c_match = [''podcasts.apple.com''], c_template = Some ''podcast'', c_description = ''Podcasts'' \<rparr>),
     (''tweet'', \<lparr> c_key = None, c_action = ''capture'', c_folder = None,
        c_match = [], c_template = None, c_description = ''Tweets'' \<rparr>)]"

text \<open>The bookmark \<open>{}\<close> of the tests, and a reasoning result without tags.\<close>

definition emptyBookmark :: bookmark where
  "emptyBookmark = \<lparr> b_id = [], b_author = [], b_text = [], b_date = [], b_tweetUrl = [],
     b_links = [], b_tags = [], b_replyContext = None, b_quoteContext = None \<rparr>"

definition mkReasoning :: "string \<Rightarrow> string \<Rightarrow> string \<Rightarrow> reasoning" where
  "mkReasoning cat ttl summ = \<lparr> r_title = ttl, r_summary = summ, r_tags = [], r_category = cat \<rparr>"

text \<open>A bookmark with one link to a repository and a text that no keyword list knows.\<close>

definition githubBookmark :: bookmark where
  "githubBookmark = emptyBookmark\<lparr> b_text := ''qq'',
     b_links := [\<lparr> l_expanded = ''https://github.com/a/b'', l_content = None \<rparr>] \<rparr>"

section \<open>Reasoning output: validation\<close>

datatype error =
    ConfigError
  | TimeoutError
  | TransportError
  | ParseError
  | TypeError
  | ValidationError string
  | InvalidSlugError
  | InvalidPathError

text \<open>The value \<open>JSON.parse\<close> returns. Only the kind of a number matters here.\<close>

datatype json =
    JNull
  | JBool bool
  | JNum int
  | JStr string
  | JArr "json list"
  | JObj "(string \<times> json) list"

text \<open>
  \<open>parsed.f\<close> for one of the four field names: \<open>None\<close> is \<open>undefined\<close>. Of a key
  written twice \<open>JSON.parse\<close> keeps the last value; strings, numbers, booleans and
  arrays have no property of these names. (Reading a property of \<open>null\<close> throws; see
  \<open>parseOutput\<close>.)
\<close>

definition get_prop :: "json \<Rightarrow> string \<Rightarrow> json option" where
  "get_prop j f = (case j of JObj kvs \<Rightarrow> map_of (rev kvs) f | _ \<Rightarrow> None)"

text \<open>\<open>!(!v || typeof v !== 'string')\<close>: a string that is not the empty string.\<close>

definition nonempty_string :: "json option \<Rightarrow> bool" where
  "nonempty_string v = (case v of Some (JStr s) \<Rightarrow> s \<noteq> [] | _ \<Rightarrow> False)"

definition str_of :: "json option \<Rightarrow> string" where
  "str_of v = (case v of Some (JStr s) \<Rightarrow> s | _ \<Rightarrow> [])"

definition is_array :: "json option \<Rightarrow> bool" where
  "is_array v = (case v of Some (JArr _) \<Rightarrow> True | _ \<Rightarrow> False)"

definition items_of :: "json option \<Rightarrow> json list" where
  "items_of v = (case v of Some (JArr xs) \<Rightarrow> xs | _ \<Rightarrow> [])"

definition is_JStr :: "json \<Rightarrow> bool" where
  "is_JStr t = (case t of JStr _ \<Rightarrow> True | _ \<Rightarrow> False)"

text \<open>
  \<open>parsed.tags.map(t => t.trim()).filter(Boolean)\<close>: a tag that is not a string has no
  method \<open>trim\<close>, and the call throws a TypeError.
\<close>

definition normalize_tags :: "json list \<Rightarrow> error + string list" where
  "normalize_tags ts =
     (if list_all is_JStr ts
      then Inr (filter (\<lambda>s. s \<noteq> []) (map (\<lambda>t. trim (str_of (Some t))) ts))
      else Inl TypeError)"

text \<open>
  \<open>OpenRouterClient._parseOutput\<close> from the value of \<open>JSON.parse(cleaned)\<close> on: the
  four checks in the order of the source, then the normalisation.
\<close>

definition parseOutput :: "json \<Rightarrow> error + reasoning" where
  "parseOutput parsed =
     (if parsed = JNull then Inl TypeError
      else if \<not> nonempty_string (get_prop parsed ''title'') then Inl (ValidationError ''title'')
      else if \<not> nonempty_string (get_prop parsed ''summary'') then Inl (ValidationError ''summary'')
      else if \<not> nonempty_string (get_prop parsed ''category'') then Inl (ValidationError ''category'')
      else if \<not> is_array (get_prop parsed ''tags'') then Inl (ValidationError ''tags'')
      else (case normalize_tags (items_of (get_prop parsed ''tags'')) of
              Inl e \<Rightarrow> Inl e
            | Inr tags \<Rightarrow>
                Inr \<lparr> r_title = trim (str_of (get_prop parsed ''title'')),
                      r_summary = trim (str_of (get_prop parsed ''summary'')),
                      r_tags = tags,
                      r_category = trim (str_of (get_prop parsed ''category'')) \<rparr>))"

text \<open>
  \<open>OpenRouterClient.getReasoning\<close>. The port stands for everything up to and including
  \<open>JSON.parse\<close>: the key check, the request with its timeout, the status check and the
  cleaning of the text; each of its failures is an error value. Its first argument is the
  number of calls made before, since the remote answer may differ from call to call.
\<close>

type_synonym port = "nat \<Rightarrow> string \<Rightarrow> error + json"

definition client_getReasoning :: "port \<Rightarrow> nat \<Rightarrow> string \<Rightarrow> error + reasoning" where
  "client_getReasoning p n prompt =
     (case p n prompt of Inl e \<Rightarrow> Inl e | Inr parsed \<Rightarrow> parseOutput parsed)"

section \<open>Default metadata\<close>

definition github_hosts :: "string list" where
  "github_hosts = [''github.com'', ''npmjs.com'', ''pypi.org'', ''gitlab.com'', ''bitbucket.org'']"

definition article_hosts :: "string list" where
  "article_hosts = [''medium.com'', ''substack.com'', ''dev.to'', ''blog.'', ''hackernoon.com'',
     ''freecodecamp.org'']"

definition video_hosts :: "string list" where
  "video_hosts = [''youtube.com'', ''youtu.be'']"

definition podcast_hosts :: "string list" where
  "podcast_hosts = [''podcasts.apple.com'', ''spotify.com/episode'', ''overcast.fm'', ''pocketcasts.com'']"

definition video_hosts2 :: "string list" where
  "video_hosts2 = [''loom.com'', ''vimeo.com'', ''twitch.tv'']"

definition github_words :: "string list" where
  "github_words = [''github'', ''repo'', ''npm '']"

definition video_words :: "string list" where
  "video_words = [''video'', ''youtube'', ''watch'']"

definition article_words :: "string list" where
  "article_words = [''article'', ''blog'', ''post'', ''guide'', ''tutorial'', ''course'',
     ''resource'', ''learning'']"

definition podcast_words :: "string list" where
  "podcast_words = [''podcast'', ''episode'']"

definition tool_words :: "string list" where
  "tool_words = [''library'', ''framework'', ''tool'', ''app'', ''stack'', ''tech'']"

definition deal_words :: "string list" where
  "deal_words = [''deal'', ''offer'', ''discount'', ''student'', ''developer'']"

text \<open>\<open>firstLink.content?.name\<close> and \<open>firstLink.content?.title\<close>\<close>

definition content_name :: "link \<Rightarrow> string option" where
  "content_name l = (case l_content l of None \<Rightarrow> None | Some c \<Rightarrow> lc_name c)"

definition content_title :: "link \<Rightarrow> string option" where
  "content_title l = (case l_content l of None \<Rightarrow> None | Some c \<Rightarrow> lc_title c)"

text \<open>
  The branches of \<open>_generateDefaultMetadata\<close>: the category and the title before the
  truncation marker is appended.
\<close>

definition defaultCategoryTitle :: "bookmark \<Rightarrow> string \<times> string" where
  "defaultCategoryTitle b =
     (let title = take 50 (b_text b);
          textLower = toLowerCase (b_text b)
      in case b_links b of
        firstLink # _ \<Rightarrow>
          (let expandedUrl = l_expanded firstLink in
           if includes_any expandedUrl github_hosts
             then (''GitHub'', or_else (content_name firstLink) (or_else (content_title firstLink) title))
           else if includes_any expandedUrl article_hosts
             then (''Article'', or_else (content_title firstLink) title)
           else if includes_any expandedUrl video_hosts
             then (''Video'', or_else (content_title firstLink) title)
           else if includes_any expandedUrl podcast_hosts
             then (''Podcast'', or_else (content_title firstLink) title)
           else if includes_any expandedUrl video_hosts2
             then (''Video'', or_else (content_title firstLink) title)
           else if includes_any textLower github_words then (''GitHub'', title)
           else if includes_any textLower video_words then (''Video'', title)
           else if includes_any textLower article_words then (''Article'', title)
           else if includes_any textLower podcast_words then (''Podcast'', title)
           else if includes_any textLower tool_words then (''Tool'', title)
           else (''General'', title))
      | [] \<Rightarrow>
          (if includes_any textLower github_words then (''GitHub'', title)
           else if includes_any textLower video_words then (''Video'', title)
           else if includes_any textLower (article_words @ [''free'']) then (''Article'', title)
           else if includes_any textLower podcast_words then (''Podcast'', title)
           else if includes_any textLower tool_words then (''Tool'', title)
           else if includes_any textLower deal_words then (''Article'', title)
           else (''General'', title)))"

definition generateDefaultMetadata :: "bookmark \<Rightarrow> reasoning" where
  "generateDefaultMetadata b =
     (let (category, title) = defaultCategoryTitle b in
      \<lparr> r_title = title @ (if length (b_text b) > 50 then ''...'' else []),
        r_summary = take 150 (b_text b),
        r_tags = b_tags b,
        r_category = category \<rparr>)"

section \<open>Slug generator\<close>

subsection \<open>The MD5 digest (RFC 1321), as \<open>crypto.createHash('md5')\<close> computes it\<close>

definition md5_K :: "32 word list" where
  "md5_K = [
     0xd76aa478, 0xe8c7b756, 0x242070db, 0xc1bdceee, 0xf57c0faf, 0x4787c62a, 0xa8304613, 0xfd469501,
     0x698098d8, 0x8b44f7af, 0xffff5bb1, 0x895cd7be, 0x6b901122, 0xfd987193, 0xa679438e, 0x49b40821,
     0xf61e2562, 0xc040b340, 0x265e5a51, 0xe9b6c7aa, 0xd62f105d, 0x02441453, 0xd8a1e681, 0xe7d3fbc8,
     0x21e1cde6, 0xc33707d6, 0xf4d50d87, 0x455a14ed, 0xa9e3e905, 0xfcefa3f8, 0x676f02d9, 0x8d2a4c8a,
     0xfffa3942, 0x8771f681, 0x6d9d6122, 0xfde5380c, 0xa4beea44, 0x4bdecfa9, 0xf6bb4b60, 0xbebfbc70,
     0x289b7ec6, 0xeaa127fa, 0xd4ef3085, 0x04881d05, 0xd9d4d039, 0xe6db99e5, 0x1fa27cf8, 0xc4ac5665,
     0xf4292244, 0x432aff97, 0xab9423a7, 0xfc93a039, 0x655b59c3, 0x8f0ccc92, 0xffeff47d, 0x85845dd1,
     0x6fa87e4f, 0xfe2ce6e0, 0xa3014314, 0x4e0811a1, 0xf7537e82, 0xbd3af235, 0x2ad7d2bb, 0xeb86d391]"

definition md5_s :: "nat list" where
  "md5_s = [
     7, 12, 17, 22, 7, 12, 17, 22, 7, 12, 17, 22, 7, 12, 17, 22,
     5, 9, 14, 20, 5, 9, 14, 20, 5, 9, 14, 20, 5, 9, 14, 20,
     4, 11, 16, 23, 4, 11, 16, 23, 4, 11, 16, 23, 4, 11, 16, 23,
     6, 10, 15, 21, 6, 10, 15, 21, 6, 10, 15, 21, 6, 10, 15, 21]"

type_synonym md5_state = "32 word \<times> 32 word \<times> 32 word \<times> 32 word"

definition md5_F :: "nat \<Rightarrow> 32 word \<Rightarrow> 32 word \<Rightarrow> 32 word \<Rightarrow> 32 word" where
  "md5_F i b c d =
     (if i < 16 then or (and b c) (and (not b) d)
      else if i < 32 then or (and d b) (and (not d) c)
      else if i < 48 then xor (xor b c) d
      else xor c (or b (not d)))"

definition md5_g :: "nat \<Rightarrow> nat" where
  "md5_g i =
     (if i < 16 then i
      else if i < 32 then (5 * i + 1) mod 16
      else if i < 48 then (3 * i + 5) mod 16
      else (7 * i) mod 16)"

definition md5_step :: "32 word list \<Rightarrow> md5_state \<Rightarrow> nat \<Rightarrow> md5_state" where
  "md5_step m st i =
     (case st of (a, b, c, d) \<Rightarrow>
        (d, b + word_rotl (md5_s ! i) (md5_F i b c d + a + md5_K ! i + m ! md5_g i), b, c))"

definition md5_block :: "32 word list \<Rightarrow> md5_state \<Rightarrow> md5_state" where
  "md5_block m st =
     (case st of (a0, b0, c0, d0) \<Rightarrow>
        (case foldl (md5_step m) st [0..<64] of (a, b, c, d) \<Rightarrow>
           (a0 + a, b0 + b, c0 + c, d0 + d)))"

text \<open>Four bytes make a little-endian word.\<close>

definition le32 :: "8 word list \<Rightarrow> 32 word" where
  "le32 bs = foldr (\<lambda>x acc. ucast x + 256 * acc) bs 0"

definition md5_words :: "8 word list \<Rightarrow> 32 word list" where
  "md5_words chunk = map (\<lambda>i. le32 (take 4 (drop (4 * i) chunk))) [0..<16]"

text \<open>
  Padding: the byte \<open>0x80\<close>, zeros up to 56 modulo 64, then the length in bits as eight
  little-endian bytes.
\<close>

definition md5_length_bytes :: "nat \<Rightarrow> 8 word list" where
  "md5_length_bytes n = map (\<lambda>k. ucast (drop_bit (8 * k) (of_nat (8 * n) :: 64 word))) [0..<8]"

definition md5_pad :: "8 word list \<Rightarrow> 8 word list" where
  "md5_pad bs =
     bs @ [0x80] @ replicate ((119 - length bs mod 64) mod 64) 0 @ md5_length_bytes (length bs)"

primrec md5_blocks :: "nat \<Rightarrow> 8 word list \<Rightarrow> md5_state \<Rightarrow> md5_state" where
  "md5_blocks 0 bs st = st"
| "md5_blocks (Suc n) bs st = md5_blocks n (drop 64 bs) (md5_block (md5_words (take 64 bs)) st)"

definition md5_init :: md5_state where
  "md5_init = (0x67452301, 0xefcdab89, 0x98badcfe, 0x10325476)"

definition hex_chars :: string where
  "hex_chars = ''0123456789abcdef''"

definition hex_byte :: "8 word \<Rightarrow> string" where
  "hex_byte b = [hex_chars ! unat (drop_bit 4 b), hex_chars ! unat (and b 15)]"

definition word_bytes :: "32 word \<Rightarrow> 8 word list" where
  "word_bytes w = map (\<lambda>k. ucast (drop_bit (8 * k) w)) [0..<4]"

text \<open>\<open>.update(s).digest('hex')\<close>: 32 lowercase hexadecimal digits.\<close>

definition md5_hex :: "string \<Rightarrow> string" where
  "md5_hex s =
     (let padded = md5_pad (map of_char s) in
      case md5_blocks (length padded div 64) padded md5_init of (a, b, c, d) \<Rightarrow>
        concat (map hex_byte (concat (map word_bytes [a, b, c, d]))))"

subsection \<open>\<open>_generateSlug\<close>\<close>

text \<open>The characters that \<open>replace(/[^a-z0-9\s-]/g, '')\<close> keeps.\<close>

definition slug_char :: "char \<Rightarrow> bool" where
  "slug_char c = (c \<in> set lower_letters \<or> c \<in> set digit_chars \<or> is_space c \<or> c = CHR ''-'')"

text \<open>\<open>replace(/\s+/g, '-')\<close>: every maximal run of whitespace becomes one hyphen.\<close>

primrec hyphenate :: "bool \<Rightarrow> string \<Rightarrow> string" where
  "hyphenate insp [] = []"
| "hyphenate insp (c # cs) =
     (if is_space c
      then (if insp then hyphenate True cs else CHR ''-'' # hyphenate True cs)
      else c # hyphenate False cs)"

definition generateSlug :: "string \<Rightarrow> string \<Rightarrow> string" where
  "generateSlug title author =
     (let slug = take 60 (hyphenate False (trim (filter slug_char (toLowerCase title))));
          hash = take 8 (md5_hex (title @ ''-'' @ author))
      in slug @ ''-'' @ hash)"

section \<open>The pipeline\<close>

definition nl :: string where
  "nl = [CHR 0x0A]"

definition dquote :: string where
  "dquote = [CHR 0x22]"

text \<open>\<open>xs.join(sep)\<close>\<close>

definition join :: "string \<Rightarrow> string list \<Rightarrow> string" where
  "join sep xs = (case xs of [] \<Rightarrow> [] | y # ys \<Rightarrow> y @ concat (map (\<lambda>z. sep @ z) ys))"

text \<open>The index of the first occurrence of \<open>p\<close> in \<open>s\<close>; \<open>None\<close> is JavaScript's \<open>-1\<close>.\<close>

primrec find_sub :: "string \<Rightarrow> string \<Rightarrow> nat option" where
  "find_sub p [] = (if p = [] then Some 0 else None)"
| "find_sub p (c # cs) = (if prefix p (c # cs) then Some 0 else map_option Suc (find_sub p cs))"

text \<open>\<open>s.indexOf(p, from)\<close>\<close>

definition indexOf :: "string \<Rightarrow> string \<Rightarrow> nat \<Rightarrow> nat option" where
  "indexOf s p from = map_option (\<lambda>i. min from (length s) + i) (find_sub p (drop from s))"

text \<open>\<open>s.replace(p, r)\<close> with a string pattern: the first occurrence only.\<close>

definition replace_first :: "string \<Rightarrow> string \<Rightarrow> string \<Rightarrow> string" where
  "replace_first p r s =
     (case find_sub p s of None \<Rightarrow> s | Some i \<Rightarrow> take i s @ r @ drop (i + length p) s)"

subsection \<open>Environment and state\<close>

text \<open>
  What the pipeline is constructed with or takes from the platform: the registry, the
  reasoning port, the output directory (after its default), \<open>path.join\<close>, the day
  \<open>new Date().toISOString().split('T')[0]\<close> and \<open>JSON.stringify\<close> on a list of strings.
\<close>

record env =
  e_categories :: registry
  e_port :: port
  e_outputDir :: string
  e_join :: "string \<Rightarrow> string \<Rightarrow> string"
  e_today :: string
  e_stringify :: "string list \<Rightarrow> string"

text \<open>
  What the pipeline changes: the archive file (\<open>None\<close> while it does not exist), the
  files written, the directories made, and the prompts sent to the reasoning port.
\<close>

record world =
  w_archive :: "string option"
  w_files :: "string \<rightharpoonup> string"
  w_dirs :: "string set"
  w_calls :: "string list"

record processing_result =
  p_id :: string
  p_title :: string
  p_slug :: string
  p_category :: "string option"
  p_filePath :: "string option"

definition toolsDir :: "env \<Rightarrow> string" where
  "toolsDir e = e_join e (e_outputDir e) ''knowledge/tools''"

subsection \<open>\<open>_buildPrompt\<close> and \<open>_getReasoning\<close>\<close>

definition contextInfo :: "string \<Rightarrow> tweet_context option \<Rightarrow> string" where
  "contextInfo verb cx =
     (case cx of
        None \<Rightarrow> []
      | Some x \<Rightarrow> nl @ nl @ verb @ '' @'' @ x_author x @ '': '' @ dquote @ take 120 (x_text x) @ dquote)"

definition buildPrompt :: "bookmark \<Rightarrow> string" where
  "buildPrompt b =
     (let linkInfo = (if length (b_links b) > 0
                      then nl @ nl @ ''Links: '' @ join nl (map l_expanded (b_links b)) else []);
          replyInfo = contextInfo ''Replying to'' (b_replyContext b);
          quoteInfo = contextInfo ''Quoting'' (b_quoteContext b)
      in ''Analyze this tweet and extract metadata for bookmark organization.'' @ nl @ nl @
         ''Tweet by: @'' @ b_author b @ nl @
         ''Tweet text: '' @ b_text b @ linkInfo @ replyInfo @ quoteInfo @ nl @ nl @
         ''Return JSON object with:'' @ nl @
         ''- title: Clean, concise title (max 60 chars, no hashtags)'' @ nl @
         ''- summary: 1-2 sentence summary of the content'' @ nl @
         ''- tags: Array of 2-4 relevant tags (lowercase, hyphenated)'' @ nl @
         ''- category: One of: GitHub, Article, Video, Podcast, Tool, General'')"

definition getReasoning :: "env \<Rightarrow> world \<Rightarrow> bookmark \<Rightarrow> reasoning \<times> world" where
  "getReasoning e w b =
     (let prompt = buildPrompt b in
      if length prompt > 3000 then (generateDefaultMetadata b, w)
      else
        (let w' = w\<lparr>w_calls := w_calls w @ [prompt]\<rparr> in
         case client_getReasoning (e_port e) (length (w_calls w)) prompt of
           Inr r \<Rightarrow> (r, w')
         | Inl err \<Rightarrow> (generateDefaultMetadata b, w')))"

subsection \<open>\<open>_writeBookmark\<close>\<close>

definition firstLink :: "bookmark \<Rightarrow> link option" where
  "firstLink b = (case b_links b of [] \<Rightarrow> None | l # _ \<Rightarrow> Some l)"

definition escape_quotes :: "string \<Rightarrow> string" where
  "escape_quotes s = concat (map (\<lambda>c. if c = CHR 0x22 then [CHR 0x5C, CHR 0x22] else [c]) s)"

definition generateFileContent :: "env \<Rightarrow> bookmark \<Rightarrow> reasoning \<Rightarrow> category_rule \<Rightarrow> string" where
  "generateFileContent e b r c =
     (let template = or_else (c_template c) ''tool'';
          date = e_today e;
          link = or_else (map_option l_expanded (firstLink b)) (b_tweetUrl b);
          description = or_else (case firstLink b of None \<Rightarrow> None
                                 | Some l \<Rightarrow> (case l_content l of None \<Rightarrow> None | Some x \<Rightarrow> lc_description x))
                          ''See link for details''
      in ''---'' @ nl @
         ''title: '' @ dquote @ escape_quotes (r_title r) @ dquote @ nl @
         ''type: '' @ template @ nl @
         ''date_added: '' @ date @ nl @
         ''source: '' @ dquote @ link @ dquote @ nl @
         ''tags: '' @ e_stringify e (r_tags r @ b_tags b) @ nl @
         ''via: '' @ dquote @ ''Twitter bookmark from @'' @ b_author b @ dquote @ nl @
         ''---'' @ nl @ nl @
         r_summary r @ nl @ nl @
         ''## Key Features'' @ nl @ nl @
         description @ nl @ nl @
         ''## Links'' @ nl @ nl @
         ''- [Original Tweet]('' @ b_tweetUrl b @ '')'' @ nl @
         (case firstLink b of None \<Rightarrow> [] | Some l \<Rightarrow> ''- [Link]('' @ l_expanded l @ '')''))"

definition ensureDir :: "world \<Rightarrow> string \<Rightarrow> world" where
  "ensureDir w dir = w\<lparr>w_dirs := insert dir (w_dirs w)\<rparr>"

text \<open>
  \<open>_writeBookmark\<close>: the path written, \<open>None\<close> for \<open>null\<close> (no file action), or the
  error thrown; the world changes only when the file is written.
\<close>

definition writeBookmark ::
  "env \<Rightarrow> world \<Rightarrow> bookmark \<Rightarrow> reasoning \<Rightarrow> category_rule \<Rightarrow> string \<Rightarrow> world \<times> (error + string option)" where
  "writeBookmark e w b r c slug =
     (let action = (if c_action c = [] then ''capture'' else c_action c) in
      if action \<noteq> ''file'' then (w, Inr None)
      else if slug = [] \<or> trim slug = [] then (w, Inl InvalidSlugError)
      else
        (let folder = or_else (c_folder c) (toolsDir e);
             filePath = e_join e folder (slug @ ''.md'')
         in if filePath = [] then (w, Inl InvalidPathError)
            else
              (let content = generateFileContent e b r c;
                   w1 = ensureDir w folder;
                   w2 = w1\<lparr>w_files := (w_files w1)(filePath \<mapsto> content @ nl)\<rparr>
               in (w2, Inr (Some filePath)))))"

subsection \<open>The archive\<close>

text \<open>\<open>_insertIntoArchive\<close> on the text of the archive (empty when the file is absent).\<close>

definition insertIntoArchive :: "string \<Rightarrow> string \<Rightarrow> string \<Rightarrow> string" where
  "insertIntoArchive date entry content =
     (let dateHeader = ''# '' @ date in
      case indexOf content dateHeader 0 of
        Some dateIndex \<Rightarrow>
          (let insertPos = (case indexOf content nl dateIndex of None \<Rightarrow> 0 | Some j \<Rightarrow> j + 1)
           in take insertPos content @ entry @ nl @ drop insertPos content)
      | None \<Rightarrow> dateHeader @ nl @ nl @ entry @ nl @ nl @ content)"

definition tagLink :: "string \<Rightarrow> string" where
  "tagLink t = [CHR 0x5B, CHR 0x5B] @ t @ [CHR 0x5D, CHR 0x5D]"

definition filedLine :: "category_rule \<Rightarrow> string \<Rightarrow> string" where
  "filedLine c slug =
     (if c_action c = ''file'' \<and> slug \<noteq> []
      then (let folder = or_else (map_option (replace_first ''./'' []) (c_folder c)) ''knowledge/tools''
            in ''- **Filed:** ['' @ slug @ ''.md](./'' @ folder @ ''/'' @ slug @ ''.md)'' @ nl)
      else [])"

definition archiveEntry :: "bookmark \<Rightarrow> reasoning \<Rightarrow> category_rule \<Rightarrow> string \<Rightarrow> string" where
  "archiveEntry b r c slug =
     (let link = or_else (map_option l_expanded (firstLink b)) [] in
      ''## @'' @ b_author b @ '' - '' @ r_title r @ nl @ ''> '' @ b_text b @ nl @ nl @
      ''- **Tweet:** '' @ b_tweetUrl b @ nl @
      (if link \<noteq> [] then ''- **Link:** '' @ link @ nl else []) @
      (if length (b_tags b) > 0 then ''- **Tags:** '' @ join '' '' (map tagLink (b_tags b)) @ nl else []) @
      filedLine c slug @
      ''- **What:** '' @ r_summary r @ nl)"

definition archiveText :: "world \<Rightarrow> string" where
  "archiveText w = (case w_archive w of None \<Rightarrow> [] | Some s \<Rightarrow> s)"

definition appendToArchive :: "world \<Rightarrow> bookmark \<Rightarrow> reasoning \<Rightarrow> category_rule \<Rightarrow> string \<Rightarrow> world" where
  "appendToArchive w b r c slug =
     (let date = or_else (Some (b_date b)) ''Unknown Date'';
          entry = archiveEntry b r c slug
      in w\<lparr>w_archive := Some (insertIntoArchive date entry (archiveText w))\<rparr>)"

subsection \<open>\<open>_loadExistingIds\<close>\<close>





subsection \<open>\<open>_processBookmark\<close> and \<open>process\<close>\<close>

text \<open>
  \<open>_processBookmark\<close>: the world after it, and the result or the error thrown. A
  category of \<open>undefined\<close> would throw when \<open>_writeBookmark\<close> reads its action.
\<close>

definition processBookmark :: "env \<Rightarrow> world \<Rightarrow> bookmark \<Rightarrow> world \<times> (error + processing_result)" where
  "processBookmark e w b =
     (case getReasoning e w b of (reasoning, w1) \<Rightarrow>
        (case matchCategory (e_categories e) b (Some reasoning) of
           None \<Rightarrow> (w1, Inl TypeError)
         | Some category \<Rightarrow>
             (let slug = generateSlug (r_title reasoning) (b_author b) in
              case writeBookmark e w1 b reasoning category slug of
                (w2, Inl err) \<Rightarrow> (w2, Inl err)
              | (w2, Inr filePath) \<Rightarrow>
                  (let w3 = (if filePath \<noteq> None \<and> filePath \<noteq> Some []
                             then appendToArchive w2 b reasoning category slug else w2)
                   in (w3, Inr \<lparr> p_id = b_id b, p_title = r_title reasoning, p_slug = slug,
                                  p_category = c_key category, p_filePath = filePath \<rparr>)))))"




record summary =
  processed :: nat
  total :: nat
  results :: "processing_result list"


section \<open>Sample inputs\<close>

text \<open>
  Two bookmarks without links: one that only the terminal default fits (action
  \<open>capture\<close>), one whose text names a repository (action \<open>file\<close>).
\<close>

definition thinkingBookmark :: bookmark where
  "thinkingBookmark = \<lparr> b_id = ''1'', b_author = ''bob'', b_text = ''just thinking about stuff'',
     b_date = ''2024-01-01'', b_tweetUrl = ''https://x.com/bob/status/1'',
     b_links = [], b_tags = [], b_replyContext = None, b_quoteContext = None \<rparr>"


text \<open>A reasoning output whose title is blank: not empty, but empty once trimmed.\<close>

definition blankTitleOutput :: json where
  "blankTitleOutput = JObj [(''title'', JStr ''  ''), (''summary'', JStr ''S''),
     (''tags'', JArr []), (''category'', JStr ''C'')]"




section \<open>Notions used in the statements\<close>



text \<open>A lowercase hexadecimal digit.\<close>

definition is_hex :: "char \<Rightarrow> bool" where
  "is_hex c = (c \<in> set hex_chars)"

section \<open>A sample environment\<close>

text \<open>
  The registry of the tests, a port whose every call times out, and simple stand-ins
  for \<open>path.join\<close> and \<open>JSON.stringify\<close>.
\<close>

definition sampleEnv :: env where
  "sampleEnv = \<lparr> e_categories = DEFAULT_CATEGORIES,
     e_port = (\<lambda>n prompt. Inl TimeoutError),
     e_outputDir = ''./test-bookmarks'',
     e_join = (\<lambda>a b. a @ ''/'' @ b),
     e_today = ''2024-01-01'',
     e_stringify = (\<lambda>xs. ''['' @ join '','' (map (\<lambda>x. dquote @ x @ dquote) xs) @ '']'') \<rparr>"

definition emptyWorld :: world where
  "emptyWorld = \<lparr> w_archive = None, w_files = Map.empty, w_dirs = {}, w_calls = [] \<rparr>"

text \<open>A bookmark whose text alone has 3000 characters.\<close>

definition hugeBookmark :: bookmark where
  "hugeBookmark = thinkingBookmark\<lparr> b_text := replicate 3000 (CHR ''a'') \<rparr>"






section \<open>Properties of the category resolver\<close>

lemma find_in_set: "find P xs = Some x \<Longrightarrow> x \<in> set xs"
  by (induction xs) (auto split: if_splits)

lemma findCategoryByUrl_in_registry:
  assumes "findCategoryByUrl cats url = Some k"
  shows "map_of cats k \<noteq> None"
proof -
  from assms obtain kc
    where f: "find (\<lambda>(k, c). list_ex (\<lambda>p. str_includes url p) (c_match c)) cats = Some kc"
      and k: "k = fst kc"
    unfolding findCategoryByUrl_def by (auto simp: map_option_case split: option.splits)
  from f have "kc \<in> set cats" by (rule find_in_set)
  then have "k \<in> fst ` set cats" using k by blast
  then show ?thesis by (simp add: map_of_eq_None_iff)
qed

lemma urlEscape_defined: "urlEscape cats ls = Some res \<Longrightarrow> res \<noteq> None"
proof (induction ls)
  case Nil
  then show ?case by simp
next
  case (Cons l ls)
  show ?case
  proof (cases "findCategoryByUrl cats (l_expanded l)")
    case None
    with Cons show ?thesis by simp
  next
    case (Some k)
    show ?thesis
    proof (cases "k = []")
      case True
      with Some Cons show ?thesis by simp
    next
      case False
      with Some Cons.prems have "res = map_of cats k" by simp
      with findCategoryByUrl_in_registry [OF Some] show ?thesis by simp
    qed
  qed
qed

lemma matchedKey_unmatched:
  assumes "categoryMap_get (trim (toLowerCase (case r of None \<Rightarrow> [] | Some x \<Rightarrow> r_category x))) = None"
    and "keywordScan (combinedText b r) = None"
    and "wordScan (split_ws (combinedText b r)) = None"
    and "\<not> includes_any (combinedText b r) topical_indicators"
  shows "matchedKey b r = None"
  using assms by (simp add: matchedKey_def Let_def unset_or_tweet_def)

text \<open>
  C5. Whatever the bookmark, the reasoning result (absent results included) and the
  registry, \<open>_matchCategory\<close> returns a rule and never \<open>undefined\<close>. When the label
  is no synonym, no keyword group, no word and no topical keyword matches, and the
  registry has no entry for the key looked up, the rule returned is the synthesized one:
  key \<open>tweet\<close>, action \<open>capture\<close>, no folder. The same holds whenever the URL loop
  does not return and the key looked up is missing from the registry.
\<close>

theorem matchCategory_never_null:
  "(\<exists>rule. matchCategory cats b r = Some rule) \<and>
   (categoryMap_get (trim (toLowerCase (case r of None \<Rightarrow> [] | Some x \<Rightarrow> r_category x))) = None \<and>
    keywordScan (combinedText b r) = None \<and>
    wordScan (split_ws (combinedText b r)) = None \<and>
    \<not> includes_any (combinedText b r) topical_indicators \<and>
    map_of cats ''undefined'' = None
    \<longrightarrow> matchCategory cats b r = Some fallbackRule) \<and>
   ((matchedKey b r = Some ''tweet'' \<longrightarrow> urlEscape cats (b_links b) = None) \<and>
    map_of cats (key_name (matchedKey b r)) = None
    \<longrightarrow> matchCategory cats b r = Some fallbackRule) \<and>
   c_key fallbackRule = Some ''tweet'' \<and> c_action fallbackRule = ''capture'' \<and>
   c_folder fallbackRule = None"
proof -
  have total: "\<exists>rule. matchCategory cats b r = Some rule"
  proof (cases "matchedKey b r = Some ''tweet''")
    case True
    show ?thesis
    proof (cases "urlEscape cats (b_links b)")
      case None
      with True show ?thesis
        by (simp add: matchCategory_def Let_def split: option.splits)
    next
      case (Some res)
      then obtain rule where "res = Some rule" using urlEscape_defined by fastforce
      with True Some show ?thesis by (simp add: matchCategory_def Let_def)
    qed
  next
    case False
    then show ?thesis by (simp add: matchCategory_def Let_def split: option.splits)
  qed
  have unmatched: "matchCategory cats b r = Some fallbackRule"
    if "matchedKey b r = None" "map_of cats ''undefined'' = None"
    using that by (simp add: matchCategory_def Let_def key_name_def)
  have missing: "matchCategory cats b r = Some fallbackRule"
    if "matchedKey b r = Some ''tweet'' \<longrightarrow> urlEscape cats (b_links b) = None"
      "map_of cats (key_name (matchedKey b r)) = None"
    using that by (cases "matchedKey b r = Some ''tweet''") (simp_all add: matchCategory_def Let_def)
  show ?thesis
  proof (intro conjI impI)
    show "\<exists>rule. matchCategory cats b r = Some rule" by (rule total)
  next
    assume h: "categoryMap_get (trim (toLowerCase (case r of None \<Rightarrow> [] | Some x \<Rightarrow> r_category x))) = None \<and>
      keywordScan (combinedText b r) = None \<and>
      wordScan (split_ws (combinedText b r)) = None \<and>
      \<not> includes_any (combinedText b r) topical_indicators \<and>
      map_of cats ''undefined'' = None"
    then have "matchedKey b r = None" by (intro matchedKey_unmatched) simp_all
    with h show "matchCategory cats b r = Some fallbackRule" by (intro unmatched) simp_all
  next
    assume "(matchedKey b r = Some ''tweet'' \<longrightarrow> urlEscape cats (b_links b) = None) \<and>
      map_of cats (key_name (matchedKey b r)) = None"
    then show "matchCategory cats b r = Some fallbackRule" by (intro missing) simp_all
  qed (simp_all add: fallbackRule_def)
qed

text \<open>
  The test "returns fallback tweet category for unrecognized content": label
  \<open>Unknown\<close>, title "Random thoughts", summary "Just thinking".
\<close>

theorem matchCategory_never_null_witness:
  "matchCategory DEFAULT_CATEGORIES emptyBookmark
     (Some (mkReasoning ''Unknown'' ''Random thoughts'' ''Just thinking'')) = Some fallbackRule"
proof -
  let ?r = "Some (mkReasoning ''Unknown'' ''Random thoughts'' ''Just thinking'')"
  have h1: "categoryMap_get (trim (toLowerCase (case ?r of None \<Rightarrow> [] | Some x \<Rightarrow> r_category x))) = None"
    by code_simp
  have h2: "keywordScan (combinedText emptyBookmark ?r) = None" by code_simp
  have h3: "wordScan (split_ws (combinedText emptyBookmark ?r)) = None" by code_simp
  have h4: "\<not> includes_any (combinedText emptyBookmark ?r) topical_indicators" by code_simp
  have h5: "map_of DEFAULT_CATEGORIES ''undefined'' = None" by code_simp
  note T = matchCategory_never_null [of DEFAULT_CATEGORIES emptyBookmark ?r,
      THEN conjunct2, THEN conjunct1, rule_format]
  show ?thesis by (rule T) (intro conjI h1 h2 h3 h4 h5)
qed

text \<open>The resolver returns a rule on every input (used below for the pipeline).\<close>

lemma matchCategory_some: "\<exists>rule. matchCategory cats b r = Some rule"
proof (cases "matchedKey b r = Some ''tweet''")
  case True
  show ?thesis
  proof (cases "urlEscape cats (b_links b)")
    case None
    with True show ?thesis
      by (simp add: matchCategory_def Let_def split: option.splits)
  next
    case (Some res)
    then obtain rule where "res = Some rule" using urlEscape_defined by fastforce
    with True Some show ?thesis by (simp add: matchCategory_def Let_def)
  qed
next
  case False
  then show ?thesis by (simp add: matchCategory_def Let_def split: option.splits)
qed

text \<open>A label the table maps to a key other than \<open>tweet\<close> decides alone, whatever the bookmark.\<close>

lemma matchedKey_direct_label:
  "categoryMap_get (trim (toLowerCase (r_category x))) = Some k \<Longrightarrow> k \<noteq> ''tweet''
   \<Longrightarrow> matchedKey b (Some x) = Some k"
  by (simp add: matchedKey_def Let_def unset_or_tweet_def)

text \<open>
  Five of the six documented hard cases, as the test suite runs them (bookmark \<open>{}\<close>),
  resolve to the registry entry \<open>article\<close>.
\<close>

lemma hard_cases_article:
  "matchCategory DEFAULT_CATEGORIES emptyBookmark
     (Some (mkReasoning ''3D Generation'' ''3D Scene Generation'' ''Test summary''))
     = map_of DEFAULT_CATEGORIES ''article''"
  "matchCategory DEFAULT_CATEGORIES emptyBookmark
     (Some (mkReasoning ''Chat History'' ''AI Chat History'' ''Test summary''))
     = map_of DEFAULT_CATEGORIES ''article''"
  "matchCategory DEFAULT_CATEGORIES emptyBookmark
     (Some (mkReasoning ''Vision'' ''Personal AI Vision'' ''Test summary''))
     = map_of DEFAULT_CATEGORIES ''article''"
  "matchCategory DEFAULT_CATEGORIES emptyBookmark
     (Some (mkReasoning ''Personal AI OS'' ''Personal AI Operating System'' ''Test summary''))
     = map_of DEFAULT_CATEGORIES ''article''"
  "matchCategory DEFAULT_CATEGORIES emptyBookmark
     (Some (mkReasoning ''Y Combinator'' ''Y Combinator Student Deals for AI Credits'' ''Test summary''))
     = map_of DEFAULT_CATEGORIES ''article''"
  by code_simp+

text \<open>
  C1. The hard case \<open>Millionaire\<close> with the title "Rise of Automation Millionaires",
  which the test suite documents as "should map to article category", resolves to the
  registry entry \<open>github\<close> instead: the table has \<open>millionaires\<close> but not
  \<open>millionaire\<close>, and in the keyword chain the GitHub group, tested first, finds
  \<open>automation\<close> in the title before the article group can find \<open>millionaire\<close>.
\<close>

theorem matchCategory_millionaire_github:
  "matchCategory DEFAULT_CATEGORIES emptyBookmark
     (Some (mkReasoning ''Millionaire'' ''Rise of Automation Millionaires'' ''Test summary''))
     = map_of DEFAULT_CATEGORIES ''github'' \<and>
   map_of DEFAULT_CATEGORIES ''github'' \<noteq> map_of DEFAULT_CATEGORIES ''article'' \<and>
   categoryMap_get ''millionaire'' = None \<and>
   keywordScan ''rise of automation millionaires test summary '' = Some ''github''"
  by code_simp

text \<open>
  C2. A bookmark with a \<open>github.com\<close> link, a text without keywords and an
  unrecognized (or empty) label: \<open>matchedKey\<close> is still \<open>undefined\<close> when the URL
  loop is reached, the loop's guard \<open>matchedKey === 'tweet'\<close> is false, and the
  synthesized \<open>capture\<close> rule is returned, although the loop itself would have found
  the entry \<open>github\<close>.
\<close>

theorem matchCategory_github_link_unrecognized:
  "matchCategory DEFAULT_CATEGORIES githubBookmark (Some (mkReasoning ''Unknown'' ''Qq'' ''Qq''))
     = Some fallbackRule \<and>
   matchCategory DEFAULT_CATEGORIES githubBookmark (Some (mkReasoning [] ''Qq'' ''Qq''))
     = Some fallbackRule \<and>
   matchedKey githubBookmark (Some (mkReasoning ''Unknown'' ''Qq'' ''Qq'')) = None \<and>
   urlEscape DEFAULT_CATEGORIES (b_links githubBookmark) = Some (map_of DEFAULT_CATEGORIES ''github'') \<and>
   Some fallbackRule \<noteq> map_of DEFAULT_CATEGORIES ''github''"
  by code_simp

text \<open>With the label \<open>General\<close> (key \<open>tweet\<close>) the same bookmark does reach the URL loop.\<close>

lemma matchCategory_github_link_general:
  "matchCategory DEFAULT_CATEGORIES githubBookmark (Some (mkReasoning ''General'' ''Qq'' ''Qq''))
     = map_of DEFAULT_CATEGORIES ''github''"
  by code_simp

section \<open>Properties of the output validator\<close>

text \<open>
  What the validator does: the four checks run in the order title, summary, category,
  tags, each on the value as parsed; the first field that is absent, not a string or the
  empty string (not an array, for \<open>tags\<close>) names the error. A result is accepted only
  when all four fields are present and of the right type.
\<close>

lemma parseOutput_checks:
  "(parsed \<noteq> JNull \<and> \<not> nonempty_string (get_prop parsed ''title'')
      \<longrightarrow> parseOutput parsed = Inl (ValidationError ''title'')) \<and>
   (nonempty_string (get_prop parsed ''title'') \<and> \<not> nonempty_string (get_prop parsed ''summary'')
      \<longrightarrow> parseOutput parsed = Inl (ValidationError ''summary'')) \<and>
   (nonempty_string (get_prop parsed ''title'') \<and> nonempty_string (get_prop parsed ''summary'') \<and>
    \<not> nonempty_string (get_prop parsed ''category'')
      \<longrightarrow> parseOutput parsed = Inl (ValidationError ''category'')) \<and>
   (nonempty_string (get_prop parsed ''title'') \<and> nonempty_string (get_prop parsed ''summary'') \<and>
    nonempty_string (get_prop parsed ''category'') \<and> \<not> is_array (get_prop parsed ''tags'')
      \<longrightarrow> parseOutput parsed = Inl (ValidationError ''tags'')) \<and>
   (\<forall>r. parseOutput parsed = Inr r \<longrightarrow>
      (\<exists>t s c ts. get_prop parsed ''title'' = Some (JStr t) \<and> t \<noteq> [] \<and>
         get_prop parsed ''summary'' = Some (JStr s) \<and> s \<noteq> [] \<and>
         get_prop parsed ''category'' = Some (JStr c) \<and> c \<noteq> [] \<and>
         get_prop parsed ''tags'' = Some (JArr ts) \<and> list_all is_JStr ts \<and>
         r = \<lparr> r_title = trim t, r_summary = trim s,
               r_tags = filter (\<lambda>x. x \<noteq> []) (map (\<lambda>x. trim (str_of (Some x))) ts),
               r_category = trim c \<rparr>))"
proof -
  have notnull: "parsed \<noteq> JNull" if "nonempty_string (get_prop parsed f)" for f
    using that by (auto simp: nonempty_string_def get_prop_def)
  have nn: "\<not> nonempty_string (get_prop JNull f)" for f
    by (simp add: nonempty_string_def get_prop_def)
  have ne: "\<exists>t. v = Some (JStr t) \<and> t \<noteq> []" if "nonempty_string v" for v
    using that by (auto simp: nonempty_string_def split: option.splits json.splits)
  have ar: "\<exists>ts. v = Some (JArr ts)" if "is_array v" for v
    using that by (auto simp: is_array_def split: option.splits json.splits)
  show ?thesis
  proof (intro conjI impI allI)
    fix r assume ok: "parseOutput parsed = Inr r"
    then have t: "nonempty_string (get_prop parsed ''title'')"
      and s: "nonempty_string (get_prop parsed ''summary'')"
      and c: "nonempty_string (get_prop parsed ''category'')"
      and a: "is_array (get_prop parsed ''tags'')"
      by (auto simp: parseOutput_def split: if_splits)
    from ne [OF t] obtain t' where t': "get_prop parsed ''title'' = Some (JStr t')" "t' \<noteq> []" by blast
    from ne [OF s] obtain s' where s': "get_prop parsed ''summary'' = Some (JStr s')" "s' \<noteq> []" by blast
    from ne [OF c] obtain c' where c': "get_prop parsed ''category'' = Some (JStr c')" "c' \<noteq> []" by blast
    from ar [OF a] obtain ts where ts: "get_prop parsed ''tags'' = Some (JArr ts)" by blast
    from ok t s c a ts have all: "list_all is_JStr ts"
      by (auto simp: parseOutput_def normalize_tags_def items_of_def split: if_splits sum.splits)
    from ok t s c a ts all t' s' c'
    have "r = \<lparr> r_title = trim t', r_summary = trim s',
               r_tags = filter (\<lambda>x. x \<noteq> []) (map (\<lambda>x. trim (str_of (Some x))) ts),
               r_category = trim c' \<rparr>"
      by (auto simp: parseOutput_def normalize_tags_def items_of_def str_of_def split: if_splits)
    with t' s' c' ts all
    show "\<exists>t s c ts. get_prop parsed ''title'' = Some (JStr t) \<and> t \<noteq> [] \<and>
         get_prop parsed ''summary'' = Some (JStr s) \<and> s \<noteq> [] \<and>
         get_prop parsed ''category'' = Some (JStr c) \<and> c \<noteq> [] \<and>
         get_prop parsed ''tags'' = Some (JArr ts) \<and> list_all is_JStr ts \<and>
         r = \<lparr> r_title = trim t, r_summary = trim s,
               r_tags = filter (\<lambda>x. x \<noteq> []) (map (\<lambda>x. trim (str_of (Some x))) ts),
               r_category = trim c \<rparr>"
      by blast
  qed (auto simp: parseOutput_def nn)
qed

text \<open>And it accepts exactly then (the tags being strings): acceptance is not vacuous.\<close>

lemma parseOutput_accepts:
  assumes "get_prop parsed ''title'' = Some (JStr t)" "t \<noteq> []"
    and "get_prop parsed ''summary'' = Some (JStr s)" "s \<noteq> []"
    and "get_prop parsed ''category'' = Some (JStr c)" "c \<noteq> []"
    and "get_prop parsed ''tags'' = Some (JArr ts)" "list_all is_JStr ts"
  shows "parseOutput parsed =
     Inr \<lparr> r_title = trim t, r_summary = trim s,
           r_tags = filter (\<lambda>x. x \<noteq> []) (map (\<lambda>x. trim (str_of (Some x))) ts),
           r_category = trim c \<rparr>"
proof -
  from assms(1) have "parsed \<noteq> JNull" by (auto simp: get_prop_def)
  with assms show ?thesis
    by (simp add: parseOutput_def nonempty_string_def is_array_def items_of_def
        normalize_tags_def str_of_def)
qed

text \<open>The inputs of the tests "validates required fields", and one accepted output.\<close>

lemma parseOutput_checks_examples:
  "parseOutput (JObj [(''title'', JStr ''Test'')]) = Inl (ValidationError ''summary'') \<and>
   parseOutput (JObj [(''summary'', JStr ''Test'')]) = Inl (ValidationError ''title'') \<and>
   parseOutput (JObj [(''title'', JStr ''Test''), (''summary'', JStr ''Test''), (''tags'', JStr ''test'')])
     = Inl (ValidationError ''category'') \<and>
   parseOutput (JObj [(''title'', JStr ''Test''), (''summary'', JStr ''Test''), (''category'', JStr ''Test''),
      (''tags'', JStr ''test'')]) = Inl (ValidationError ''tags'') \<and>
   is_array (get_prop (JObj [(''title'', JStr '' T ''), (''summary'', JStr ''S''),
      (''tags'', JArr [JStr '' a '', JStr '' '']), (''category'', JStr ''C'')]) ''tags'') \<and>
   parseOutput (JObj [(''title'', JStr '' T ''), (''summary'', JStr ''S''),
      (''tags'', JArr [JStr '' a '', JStr '' '']), (''category'', JStr ''C'')])
     = Inr \<lparr> r_title = ''T'', r_summary = ''S'', r_tags = [''a''], r_category = ''C'' \<rparr>"
proof -
  let ?j1 = "JObj [(''title'', JStr ''Test'')]"
  let ?j2 = "JObj [(''summary'', JStr ''Test'')]"
  let ?j3 = "JObj [(''title'', JStr ''Test''), (''summary'', JStr ''Test''), (''tags'', JStr ''test'')]"
  let ?j4 = "JObj [(''title'', JStr ''Test''), (''summary'', JStr ''Test''), (''category'', JStr ''Test''),
      (''tags'', JStr ''test'')]"
  let ?j5 = "JObj [(''title'', JStr '' T ''), (''summary'', JStr ''S''), (''tags'', JArr [JStr '' a '', JStr '' '']),
      (''category'', JStr ''C'')]"
  have a1: "nonempty_string (get_prop ?j1 ''title'') \<and> \<not> nonempty_string (get_prop ?j1 ''summary'')"
    by code_simp
  have a2: "?j2 \<noteq> JNull \<and> \<not> nonempty_string (get_prop ?j2 ''title'')" by code_simp
  have a3: "nonempty_string (get_prop ?j3 ''title'') \<and> nonempty_string (get_prop ?j3 ''summary'') \<and>
    \<not> nonempty_string (get_prop ?j3 ''category'')" by code_simp
  have a4: "nonempty_string (get_prop ?j4 ''title'') \<and> nonempty_string (get_prop ?j4 ''summary'') \<and>
    nonempty_string (get_prop ?j4 ''category'') \<and> \<not> is_array (get_prop ?j4 ''tags'')" by code_simp
  have a5: "parseOutput ?j5 = Inr \<lparr> r_title = ''T'', r_summary = ''S'', r_tags = [''a''], r_category = ''C'' \<rparr>"
    by code_simp
  note T1 = parseOutput_checks [of ?j1, THEN conjunct2, THEN conjunct1, rule_format, OF a1]
  note T2 = parseOutput_checks [of ?j2, THEN conjunct1, rule_format, OF a2]
  note T3 = parseOutput_checks [of ?j3, THEN conjunct2, THEN conjunct2, THEN conjunct1, rule_format, OF a3]
  note T4 = parseOutput_checks [of ?j4, THEN conjunct2, THEN conjunct2, THEN conjunct2,
      THEN conjunct1, rule_format, OF a4]
  from parseOutput_checks [of ?j5, THEN conjunct2, THEN conjunct2, THEN conjunct2,
      THEN conjunct2, rule_format, OF a5]
  obtain ts where T5: "get_prop ?j5 ''tags'' = Some (JArr ts)" by blast
  from T5 have T5': "is_array (get_prop ?j5 ''tags'')" by (simp add: is_array_def)
  from T1 T2 T3 T4 T5' a5 show ?thesis by (intro conjI)
qed

text \<open>
  C3. The rule "empty after trimming is refused" is broken by the code on a blank
  title: \<open>!parsed.title\<close> is tested on the untrimmed value, which is truthy, and
  \<open>trim\<close> is applied only afterwards, so the output is accepted with the empty title
  that the check is there to refuse. The same holds for summary and category.
\<close>

theorem parseOutput_blank_title_accepted:
  "trim (str_of (get_prop blankTitleOutput ''title'')) = [] \<and>
   parseOutput blankTitleOutput = Inr \<lparr> r_title = [], r_summary = ''S'', r_tags = [], r_category = ''C'' \<rparr>"
  by code_simp

section \<open>Properties of the default metadata\<close>





section \<open>Properties of the slug generator\<close>

text \<open>The digest agrees with the test vector of RFC 1321 for \<open>abc\<close>.\<close>

lemma md5_hex_abc: "md5_hex ''abc'' = ''900150983cd24fb0d6963f7d28e17f72''"
  by code_simp

lemma trim_empty_iff: "trim s = [] \<longleftrightarrow> (\<forall>c \<in> set s. is_space c)"
proof
  assume "trim s = []"
  then have "dropWhile is_space (rev (dropWhile is_space s)) = []"
    unfolding trim_def by (simp only: rev_is_Nil_conv)
  then have "\<forall>c \<in> set (rev (dropWhile is_space s)). is_space c"
    by (simp only: dropWhile_eq_Nil_conv)
  then have a: "\<forall>c \<in> set (dropWhile is_space s). is_space c"
    by (simp only: set_rev)
  have "dropWhile is_space s = []"
  proof (cases "dropWhile is_space s")
    case Nil then show ?thesis .
  next
    case (Cons x xs)
    then have "dropWhile is_space s \<noteq> []" by simp
    then have "\<not> is_space (hd (dropWhile is_space s))" by (rule hd_dropWhile)
    with Cons have "\<not> is_space x" by simp
    moreover from a Cons have "is_space x" by simp
    ultimately show ?thesis by contradiction
  qed
  then show "\<forall>c \<in> set s. is_space c" by (simp only: dropWhile_eq_Nil_conv)
next
  assume "\<forall>c \<in> set s. is_space c"
  then have "dropWhile is_space s = []" by (simp only: dropWhile_eq_Nil_conv)
  then show "trim s = []" unfolding trim_def by (simp only: rev.simps dropWhile.simps)
qed
lemma hex_nibble: "n < 16 \<Longrightarrow> is_hex (hex_chars ! n)"
  unfolding is_hex_def by (rule nth_mem) (simp add: hex_chars_def)

lemma high_nibble: "unat (drop_bit 4 (b :: 8 word)) < 16"
proof -
  have "unat b < 2 ^ 8" using unsigned_less [of b] by simp
  then have "unat b div 2 ^ 4 < 16" by simp
  then show ?thesis by (simp add: drop_bit_eq_div unat_div)
qed

lemma low_nibble: "unat (and (b :: 8 word) 15) < 16"
proof -
  have "and b 15 \<le> 15" by (rule word_and_le1)
  then have "unat (and b 15) \<le> unat (15 :: 8 word)" by (simp add: word_le_nat_alt)
  then show ?thesis by simp
qed

lemma hex_byte_props: "length (hex_byte b) = 2 \<and> list_all is_hex (hex_byte b)"
proof -
  have h1: "is_hex (hex_chars ! unat (drop_bit 4 b))" by (rule hex_nibble [OF high_nibble])
  have h2: "is_hex (hex_chars ! unat (and b 15))" by (rule hex_nibble [OF low_nibble])
  have "length (hex_byte b) = 2" unfolding hex_byte_def by simp
  moreover have "list_all is_hex (hex_byte b)"
    unfolding hex_byte_def using h1 h2 by (simp add: list_all_iff)
  ultimately show ?thesis by (rule conjI)
qed

lemma hex_bytes_props:
  "length (concat (map hex_byte bs)) = 2 * length bs \<and> list_all is_hex (concat (map hex_byte bs))"
proof (induction bs)
  case Nil
  show ?case by simp
next
  case (Cons x xs)
  with hex_byte_props [of x] show ?case by (auto simp: list_all_iff)
qed

lemma word_bytes_length: "length (word_bytes w) = 4"
  by (simp add: word_bytes_def)

lemma md5_hex_props: "length (md5_hex s) = 32 \<and> list_all is_hex (md5_hex s)"
proof -
  obtain a b c d where st: "md5_blocks (length (md5_pad (map of_char s)) div 64)
      (md5_pad (map of_char s)) md5_init = (a, b, c, d)"
    by (metis prod_cases4)
  have "length (concat (map word_bytes [a, b, c, d])) = 16"
    by (simp add: word_bytes_length)
  moreover have "md5_hex s = concat (map hex_byte (concat (map word_bytes [a, b, c, d])))"
    unfolding md5_hex_def Let_def st by (simp only: prod.case)
  ultimately show ?thesis
    using hex_bytes_props [of "concat (map word_bytes [a, b, c, d])"] by (simp only:) simp
qed

lemma generateSlug_shape:
  "generateSlug title author =
     take 60 (hyphenate False (trim (filter slug_char (toLowerCase title)))) @ ''-'' @
     take 8 (md5_hex (title @ ''-'' @ author))"
  by (simp add: generateSlug_def Let_def)

lemma generateSlug_valid:
  "generateSlug title author \<noteq> [] \<and> trim (generateSlug title author) \<noteq> []"
proof -
  have ne: "generateSlug title author \<noteq> []" unfolding generateSlug_shape by simp
  have dash: "\<not> is_space (CHR ''-'')" by (simp add: is_space_def)
  have "CHR ''-'' \<in> set (generateSlug title author)" unfolding generateSlug_shape by simp
  with dash have "\<not> (\<forall>c \<in> set (generateSlug title author). is_space c)" by blast
  then have "trim (generateSlug title author) \<noteq> []" using trim_empty_iff by blast
  with ne show ?thesis by (rule conjI)
qed

text \<open>
  C10. For every title and author the slug is the sanitized prefix (at most 60
  characters, possibly empty), a hyphen, and the first 8 characters of the digest, all of
  them hexadecimal digits. So the slug is never empty and never blank, and
  \<open>_writeBookmark\<close> never takes its invalid-slug branch on a slug made by
  \<open>_generateSlug\<close>, whatever the bookmark, the rule and the state.
\<close>

theorem generateSlug_nonempty:
  "generateSlug title author =
     take 60 (hyphenate False (trim (filter slug_char (toLowerCase title)))) @ ''-'' @
     take 8 (md5_hex (title @ ''-'' @ author)) \<and>
   length (take 8 (md5_hex (title @ ''-'' @ author))) = 8 \<and>
   list_all is_hex (take 8 (md5_hex (title @ ''-'' @ author))) \<and>
   generateSlug title author \<noteq> [] \<and>
   trim (generateSlug title author) \<noteq> [] \<and>
   snd (writeBookmark e w b r c (generateSlug title author)) \<noteq> Inl InvalidSlugError"
proof -
  let ?h = "take 8 (md5_hex (title @ ''-'' @ author))"
  have len: "length ?h = 8" using md5_hex_props [of "title @ ''-'' @ author"] by simp
  have hex: "list_all is_hex ?h"
    using md5_hex_props [of "title @ ''-'' @ author"]
    by (auto simp: list_all_iff dest: in_set_takeD)
  from generateSlug_valid [of title author]
  have ne: "generateSlug title author \<noteq> []" and tr: "trim (generateSlug title author) \<noteq> []"
    by simp_all
  have wb: "snd (writeBookmark e w b r c (generateSlug title author)) \<noteq> Inl InvalidSlugError"
    using ne tr by (simp add: writeBookmark_def Let_def)
  from generateSlug_shape [of title author] len hex ne tr wb show ?thesis by (intro conjI)
qed

text \<open>A title without any character the slug keeps: the prefix is empty, the slug is not.\<close>

theorem generateSlug_nonempty_witness:
  "generateSlug ''!!!'' ''bob'' = ''-7553f4e7'' \<and> trim (generateSlug ''!!!'' ''bob'') \<noteq> []"
proof -
  have v: "generateSlug ''!!!'' ''bob'' = ''-7553f4e7''" by code_simp
  note T = generateSlug_nonempty [of "''!!!''" "''bob''", THEN conjunct2, THEN conjunct2,
      THEN conjunct2, THEN conjunct2, THEN conjunct1]
  from v T show ?thesis by (rule conjI)
qed

section \<open>Properties of the archive updater\<close>









section \<open>Properties of one bookmark's processing\<close>


lemma writeBookmark_no_file:
  "c_action c \<noteq> ''file'' \<Longrightarrow> writeBookmark e w b r c slug = (w, Inr None)"
  by (simp add: writeBookmark_def Let_def)

lemma writeBookmark_file:
  assumes "c_action c = ''file''" "slug \<noteq> []" "trim slug \<noteq> []"
    and "e_join e (or_else (c_folder c) (toolsDir e)) (slug @ ''.md'') \<noteq> []"
  shows "writeBookmark e w b r c slug =
    ((ensureDir w (or_else (c_folder c) (toolsDir e)))
       \<lparr>w_files := (w_files w)(e_join e (or_else (c_folder c) (toolsDir e)) (slug @ ''.md'')
            \<mapsto> generateFileContent e b r c @ nl)\<rparr>,
     Inr (Some (e_join e (or_else (c_folder c) (toolsDir e)) (slug @ ''.md''))))"
  using assms by (simp add: writeBookmark_def Let_def ensureDir_def)

lemma writeBookmark_file_fail:
  assumes "c_action c = ''file''" "slug \<noteq> []" "trim slug \<noteq> []"
    and "e_join e (or_else (c_folder c) (toolsDir e)) (slug @ ''.md'') = []"
  shows "writeBookmark e w b r c slug = (w, Inl InvalidPathError)"
  using assms by (simp add: writeBookmark_def Let_def)



text \<open>
  The only error \<open>_processBookmark\<close> can end with is the one for an empty path (which
  the model's \<open>path.join\<close> parameter would have to return): the resolver always gives a
  rule, and the slug is always valid.
\<close>

lemma processBookmark_error:
  assumes "snd (processBookmark e w b) = Inl err"
  shows "err = InvalidPathError"
proof -
  obtain r w1 where g: "getReasoning e w b = (r, w1)" by (cases "getReasoning e w b")
  obtain c where m: "matchCategory (e_categories e) b (Some r) = Some c"
    using matchCategory_some by blast
  let ?slug = "generateSlug (r_title r) (b_author b)"
  let ?path = "e_join e (or_else (c_folder c) (toolsDir e)) (?slug @ ''.md'')"
  from generateSlug_valid [of "r_title r" "b_author b"]
  have sv: "?slug \<noteq> []" "trim ?slug \<noteq> []" by simp_all
  show ?thesis
  proof (cases "c_action c = ''file''")
    case False
    from assms g m writeBookmark_no_file [OF False, of e w1 b r ?slug]
    show ?thesis by (simp add: processBookmark_def Let_def)
  next
    case True
    show ?thesis
    proof (cases "?path = []")
      case True
      from assms g m writeBookmark_file_fail [OF \<open>c_action c = ''file''\<close> sv True, of w1 b r]
      show ?thesis by (simp add: processBookmark_def Let_def)
    next
      case False
      from assms g m writeBookmark_file [OF True sv False, of w1 b r]
      show ?thesis by (simp add: processBookmark_def Let_def)
    qed
  qed
qed






section \<open>Properties of the reasoning step\<close>

lemma huge_prompt: "length (buildPrompt hugeBookmark) > 3000"
  by (simp add: buildPrompt_def hugeBookmark_def thinkingBookmark_def contextInfo_def Let_def)

lemma small_prompt: "length (buildPrompt thinkingBookmark) \<le> 3000"
  by (simp add: buildPrompt_def thinkingBookmark_def contextInfo_def Let_def nl_def)

text \<open>
  C9. When the prompt has more than 3000 characters, \<open>_getReasoning\<close> returns the
  default metadata and makes no call (the state is unchanged). Otherwise it makes one
  call, and when the call fails, be it in the port (timeout, transport, parsing) or in
  the validation of the parsed output, it returns the default metadata as well;
  only a validated output is returned as it is. No failure of the reasoning step fails
  the bookmark: \<open>_getReasoning\<close> always returns, and \<open>_processBookmark\<close> can end
  in no error but that of an empty file path.
\<close>

theorem getReasoning_falls_back:
  "(length (buildPrompt b) > 3000 \<longrightarrow> getReasoning e w b = (generateDefaultMetadata b, w)) \<and>
   (length (buildPrompt b) \<le> 3000 \<and> e_port e (length (w_calls w)) (buildPrompt b) = Inl err \<longrightarrow>
      getReasoning e w b = (generateDefaultMetadata b, w\<lparr>w_calls := w_calls w @ [buildPrompt b]\<rparr>)) \<and>
   (length (buildPrompt b) \<le> 3000 \<and> e_port e (length (w_calls w)) (buildPrompt b) = Inr parsed \<and>
    parseOutput parsed = Inl err \<longrightarrow>
      getReasoning e w b = (generateDefaultMetadata b, w\<lparr>w_calls := w_calls w @ [buildPrompt b]\<rparr>)) \<and>
   (length (buildPrompt b) \<le> 3000 \<and> e_port e (length (w_calls w)) (buildPrompt b) = Inr parsed \<and>
    parseOutput parsed = Inr r \<longrightarrow>
      getReasoning e w b = (r, w\<lparr>w_calls := w_calls w @ [buildPrompt b]\<rparr>)) \<and>
   (\<forall>failure. snd (processBookmark e w b) = Inl failure \<longrightarrow> failure = InvalidPathError)"
  using processBookmark_error [of e w b]
  by (simp add: getReasoning_def client_getReasoning_def Let_def)

text \<open>A text of 3000 characters, and a short bookmark against a port that times out.\<close>

theorem getReasoning_falls_back_witness:
  "getReasoning sampleEnv emptyWorld hugeBookmark = (generateDefaultMetadata hugeBookmark, emptyWorld) \<and>
   fst (getReasoning sampleEnv emptyWorld thinkingBookmark) = generateDefaultMetadata thinkingBookmark \<and>
   w_calls (snd (getReasoning sampleEnv emptyWorld thinkingBookmark)) = [buildPrompt thinkingBookmark]"
proof -
  have p: "e_port sampleEnv (length (w_calls emptyWorld)) (buildPrompt thinkingBookmark) = Inl TimeoutError"
    by (simp add: sampleEnv_def)
  note T1 = getReasoning_falls_back [of hugeBookmark sampleEnv emptyWorld, THEN conjunct1, rule_format,
      OF huge_prompt]
  note T2 = getReasoning_falls_back [of thinkingBookmark sampleEnv emptyWorld, THEN conjunct2,
      THEN conjunct1, rule_format, OF conjI [OF small_prompt p]]
  from T1 T2 show ?thesis by (simp add: emptyWorld_def)
qed

section \<open>Properties of duplicate detection\<close>

subsection \<open>What the scan of the archive finds\<close>

















subsection \<open>The loop of \<open>process\<close>\<close>








end
